theory Spec2Isabelle
  imports Complex_Main "HOL-Library.Sublist"
begin

section \<open>Python values, errors and the builtins the decision core calls\<close>

text \<open>
  The decision core of EthicalAV is \<^verbatim>\<open>rules_adapter.decide_action(mode, data)\<close>, which
  calls the base rules of \<^verbatim>\<open>ethics_engine.py\<close>. \<^verbatim>\<open>data\<close> is a Python dict (a pandas
  row turned into a dict by the callers), so it is modelled as a map from keys to Python
  values. Conventions of the embedding:
  \<^item> a Python \<^verbatim>\<open>float\<close> is a \<open>pyfloat\<close>: a finite double (a real number), one of the two
    infinities, or NaN. The sign of a zero, which no comparison sees, is not modelled;
  \<^item> an arithmetic operation on finite floats returns its exact result rounded to a
    double. The rounding (round to nearest, ties to even) is Python's and not this
    repository's: it is the parameter \<open>fl_round\<close> of the model. A rounded result of
    magnitude \<open>2^1024\<close> or more is an overflow;
  \<^item> a Python \<^verbatim>\<open>int\<close> is an unbounded \<open>int\<close>; converting one to a float raises
    \<^verbatim>\<open>OverflowError\<close> when it overflows;
  \<^item> a Python \<^verbatim>\<open>str\<close> is a \<open>string\<close> of ASCII characters;
  \<^item> an exception is a value \<open>Inl e\<close> of the result type \<open>error + 'a\<close>.
  The private functions \<^verbatim>\<open>_norm\<close>, \<^verbatim>\<open>_riskify\<close> and \<^verbatim>\<open>_base_decision\<close> are named \<open>u_norm\<close>,
  \<open>u_riskify\<close> and \<open>u_base_decision\<close>, since an Isabelle name cannot begin with an
  underscore.
\<close>

datatype pyfloat = Finite real | PosInf | NegInf | NaN

datatype pyval = PNone | PBool bool | PInt int | PFloat pyfloat | PStr string

datatype error = KeyError | TypeError | ValueError | OverflowError

type_synonym pydict = "string \<rightharpoonup> pyval"

text \<open>
  How \<^verbatim>\<open>int(s)\<close> and \<^verbatim>\<open>float(s)\<close> read a string \<open>s\<close>, and how a real result is rounded
  to a double, are parameters of the model. For the parsers \<open>None\<close> stands for the
  \<^verbatim>\<open>ValueError\<close> of a string that is no numeric literal.
\<close>

record py_builtins =
  int_of_str :: "string \<Rightarrow> int option"
  float_of_str :: "string \<Rightarrow> pyfloat option"
  fl_round :: "real \<Rightarrow> real"

text \<open>
  The float that an exact result \<open>x\<close> becomes: \<open>x\<close> rounded, or an infinity when the
  rounded value overflows. A decimal literal such as \<^verbatim>\<open>0.10\<close> is \<open>to_float B (10 / 100)\<close>,
  the double nearest to it.
\<close>

definition to_float :: "py_builtins \<Rightarrow> real \<Rightarrow> pyfloat" where
  "to_float B x =
     (let r = fl_round B x in
      if 2 ^ 1024 \<le> r then PosInf else if r \<le> - (2 ^ 1024) then NegInf else Finite r)"

text \<open>The comparisons \<^verbatim>\<open><\<close> and \<^verbatim>\<open><=\<close> of floats: false whenever a side is NaN.\<close>

fun fl_lt :: "pyfloat \<Rightarrow> pyfloat \<Rightarrow> bool" where
  "fl_lt (Finite x) (Finite y) = (x < y)"
| "fl_lt NaN b = False"
| "fl_lt a NaN = False"
| "fl_lt a NegInf = False"
| "fl_lt PosInf b = False"
| "fl_lt NegInf b = True"
| "fl_lt (Finite x) PosInf = True"

fun fl_le :: "pyfloat \<Rightarrow> pyfloat \<Rightarrow> bool" where
  "fl_le (Finite x) (Finite y) = (x \<le> y)"
| "fl_le NaN b = False"
| "fl_le a NaN = False"
| "fl_le NegInf b = True"
| "fl_le a PosInf = True"
| "fl_le PosInf b = False"
| "fl_le (Finite x) NegInf = False"

text \<open>
  The builtins \<^verbatim>\<open>min(a, b)\<close> and \<^verbatim>\<open>max(a, b)\<close> keep their first argument unless the
  second is strictly smaller, respectively strictly larger; so a NaN in first place is
  kept and a NaN in second place is dropped.
\<close>

definition py_min :: "pyfloat \<Rightarrow> pyfloat \<Rightarrow> pyfloat" where
  "py_min a b = (if fl_lt b a then b else a)"

definition py_max :: "pyfloat \<Rightarrow> pyfloat \<Rightarrow> pyfloat" where
  "py_max a b = (if fl_lt a b then b else a)"

text \<open>Float arithmetic: negation, \<^verbatim>\<open>abs\<close>, \<^verbatim>\<open>+\<close>, \<^verbatim>\<open>-\<close> and \<^verbatim>\<open>*\<close>.\<close>

fun fl_neg :: "pyfloat \<Rightarrow> pyfloat" where
  "fl_neg (Finite x) = Finite (- x)"
| "fl_neg PosInf = NegInf"
| "fl_neg NegInf = PosInf"
| "fl_neg NaN = NaN"

fun fl_abs :: "pyfloat \<Rightarrow> pyfloat" where
  "fl_abs (Finite x) = Finite \<bar>x\<bar>"
| "fl_abs PosInf = PosInf"
| "fl_abs NegInf = PosInf"
| "fl_abs NaN = NaN"

fun fl_add :: "py_builtins \<Rightarrow> pyfloat \<Rightarrow> pyfloat \<Rightarrow> pyfloat" where
  "fl_add B (Finite x) (Finite y) = to_float B (x + y)"
| "fl_add B NaN b = NaN"
| "fl_add B a NaN = NaN"
| "fl_add B PosInf NegInf = NaN"
| "fl_add B NegInf PosInf = NaN"
| "fl_add B PosInf b = PosInf"
| "fl_add B NegInf b = NegInf"
| "fl_add B (Finite x) b = b"

definition fl_sub :: "py_builtins \<Rightarrow> pyfloat \<Rightarrow> pyfloat \<Rightarrow> pyfloat" where
  "fl_sub B a b = fl_add B a (fl_neg b)"

fun fl_sign :: "pyfloat \<Rightarrow> int" where
  "fl_sign (Finite x) = (if 0 < x then 1 else if x < 0 then - 1 else 0)"
| "fl_sign PosInf = 1"
| "fl_sign NegInf = - 1"
| "fl_sign NaN = 0"

definition fl_mul :: "py_builtins \<Rightarrow> pyfloat \<Rightarrow> pyfloat \<Rightarrow> pyfloat" where
  "fl_mul B a b =
     (case (a, b) of
        (Finite x, Finite y) \<Rightarrow> to_float B (x * y)
      | _ \<Rightarrow>
          (let s = fl_sign a * fl_sign b in
           if a = NaN \<or> b = NaN \<or> s = 0 then NaN else if 0 < s then PosInf else NegInf))"

text \<open>
  The conversion of an \<^verbatim>\<open>int\<close> to a float, as \<^verbatim>\<open>float(i)\<close> and as the first step of
  \<^verbatim>\<open>i / 120.0\<close>: the rounded value, or \<^verbatim>\<open>OverflowError\<close> when it overflows. Under the
  rounding of doubles that is from \<open>2^1024 - 2^970\<close> on in absolute value; \<^verbatim>\<open>10**400\<close>
  overflows under every rounding that does not shrink it below \<open>2^1024\<close>.
\<close>

definition int_to_float :: "py_builtins \<Rightarrow> int \<Rightarrow> error + real" where
  "int_to_float B i =
     (case to_float B (real_of_int i) of Finite v \<Rightarrow> Inr v | _ \<Rightarrow> Inl OverflowError)"

fun py_float :: "py_builtins \<Rightarrow> pyval \<Rightarrow> error + pyfloat" where
  "py_float B PNone = Inl TypeError"
| "py_float B (PBool b) = Inr (Finite (if b then 1 else 0))"
| "py_float B (PInt i) =
     (case int_to_float B i of Inl e \<Rightarrow> Inl e | Inr v \<Rightarrow> Inr (Finite v))"
| "py_float B (PFloat f) = Inr f"
| "py_float B (PStr s) =
     (case float_of_str B s of None \<Rightarrow> Inl ValueError | Some f \<Rightarrow> Inr f)"

text \<open>\<^verbatim>\<open>int(x)\<close> truncates a finite float towards zero and refuses NaN and the infinities.\<close>

fun py_int :: "py_builtins \<Rightarrow> pyval \<Rightarrow> error + int" where
  "py_int B PNone = Inl TypeError"
| "py_int B (PBool b) = Inr (if b then 1 else 0)"
| "py_int B (PInt i) = Inr i"
| "py_int B (PFloat (Finite r)) = Inr (if 0 \<le> r then \<lfloor>r\<rfloor> else \<lceil>r\<rceil>)"
| "py_int B (PFloat NaN) = Inl ValueError"
| "py_int B (PFloat PosInf) = Inl OverflowError"
| "py_int B (PFloat NegInf) = Inl OverflowError"
| "py_int B (PStr s) =
     (case int_of_str B s of None \<Rightarrow> Inl ValueError | Some i \<Rightarrow> Inr i)"

text \<open>\<^verbatim>\<open>data[k]\<close> raises \<^verbatim>\<open>KeyError\<close> on a missing key; \<^verbatim>\<open>data.get(k, d)\<close> returns \<open>d\<close>.\<close>

definition getitem :: "pydict \<Rightarrow> string \<Rightarrow> error + pyval" where
  "getitem d k = (case d k of None \<Rightarrow> Inl KeyError | Some v \<Rightarrow> Inr v)"

definition dict_get :: "pydict \<Rightarrow> string \<Rightarrow> pyval \<Rightarrow> pyval" where
  "dict_get d k dflt = (case d k of None \<Rightarrow> dflt | Some v \<Rightarrow> v)"

text \<open>
  \<^verbatim>\<open>str.lower()\<close> and \<^verbatim>\<open>str.strip()\<close> on ASCII strings. The whitespace that \<^verbatim>\<open>strip\<close>
  removes is the set of code points below 128 for which \<^verbatim>\<open>str.isspace\<close> holds:
  9 to 13, 28 to 31 and 32.
\<close>

definition lower_char :: "char \<Rightarrow> char" where
  "lower_char c =
     (let n = (of_char c :: nat) in if 65 \<le> n \<and> n \<le> 90 then char_of (n + 32) else c)"

definition lower :: "string \<Rightarrow> string" where
  "lower s = map lower_char s"

definition isspace :: "char \<Rightarrow> bool" where
  "isspace c =
     (let n = (of_char c :: nat) in (9 \<le> n \<and> n \<le> 13) \<or> (28 \<le> n \<and> n \<le> 31) \<or> n = 32)"

definition strip :: "string \<Rightarrow> string" where
  "strip s = rev (dropWhile isspace (rev (dropWhile isspace s)))"

section \<open>\<^verbatim>\<open>ethics_engine.py\<close>: the base rules\<close>

definition utilitarian_decision :: "pydict \<Rightarrow> error + string" where
  "utilitarian_decision data =
     (case getitem data ''name'' of
        Inl e \<Rightarrow> Inl e
      | Inr n \<Rightarrow>
          if n = PStr ''car_vs_pedestrian'' then Inr ''swerve_left''
          else if n = PStr ''car_vs_car'' then Inr ''swerve_left''
          else if n = PStr ''pedestrian_vs_pedestrian'' then Inr ''brake''
          else Inr ''straight'')"

definition deontological_decision :: "pydict \<Rightarrow> error + string" where
  "deontological_decision data =
     (case getitem data ''name'' of
        Inl e \<Rightarrow> Inl e
      | Inr n \<Rightarrow>
          if n = PStr ''car_vs_pedestrian'' then Inr ''brake''
          else if n = PStr ''car_vs_car'' then Inr ''brake''
          else if n = PStr ''pedestrian_vs_pedestrian'' then Inr ''brake''
          else Inr ''straight'')"

definition virtue_ethics_decision :: "pydict \<Rightarrow> error + string" where
  "virtue_ethics_decision data =
     (case getitem data ''name'' of
        Inl e \<Rightarrow> Inl e
      | Inr n \<Rightarrow>
          if n = PStr ''car_vs_pedestrian'' then Inr ''swerve_left''
          else if n = PStr ''car_vs_car'' then Inr ''slow down''
          else if n = PStr ''pedestrian_vs_pedestrian'' then Inr ''brake''
          else Inr ''straight'')"

section \<open>\<^verbatim>\<open>rules_adapter.py\<close>: normalisation, coercion and the refinement\<close>

text \<open>\<^verbatim>\<open>_norm(a)\<close>, lines 9 to 15; \<open>None\<close> is Python's \<^verbatim>\<open>None\<close>.\<close>

definition u_norm :: "string option \<Rightarrow> string" where
  "u_norm a =
     (case a of
        None \<Rightarrow> ''brake''
      | Some s \<Rightarrow>
          (let a' = lower (strip s) in
           if a' = ''straight'' then ''hold_lane''
           else if a' = ''slow down'' then ''slow_down''
           else a'))"

text \<open>
  \<^verbatim>\<open>_riskify(x)\<close>, lines 17 to 23: \<^verbatim>\<open>min(max(v, 0.0), 1.0)\<close> for \<^verbatim>\<open>v = float(x)\<close>; the
  bare \<^verbatim>\<open>except\<close> turns every error of \<^verbatim>\<open>float(x)\<close> into \<open>0.0\<close>.
\<close>

definition u_riskify :: "py_builtins \<Rightarrow> pyval \<Rightarrow> pyfloat" where
  "u_riskify B x =
     (case py_float B x of
        Inl e \<Rightarrow> Finite 0
      | Inr v \<Rightarrow> py_min (py_max v (Finite 0)) (Finite 1))"

text \<open>\<^verbatim>\<open>_base_decision(mode, data)\<close>, lines 25 to 33: the mode is compared for equality.\<close>

definition u_base_decision :: "string \<Rightarrow> pydict \<Rightarrow> error + string" where
  "u_base_decision mode data =
     (if mode = ''utilitarian'' then
        (case utilitarian_decision data of Inl e \<Rightarrow> Inl e | Inr a \<Rightarrow> Inr (u_norm (Some a)))
      else if mode = ''deontological'' then
        (case deontological_decision data of Inl e \<Rightarrow> Inl e | Inr a \<Rightarrow> Inr (u_norm (Some a)))
      else
        (case virtue_ethics_decision data of Inl e \<Rightarrow> Inl e | Inr a \<Rightarrow> Inr (u_norm (Some a))))"

text \<open>The thresholds of lines 61 to 64; the three decimal literals are rounded to doubles.\<close>

abbreviation HIGH_SPEED :: int where "HIGH_SPEED \<equiv> 45"

abbreviation VERY_HIGH_TOTAL :: "py_builtins \<Rightarrow> pyfloat" where
  "VERY_HIGH_TOTAL B \<equiv> to_float B (140 / 100)"

abbreviation HIGH_SIDE_RISK :: "py_builtins \<Rightarrow> pyfloat" where
  "HIGH_SIDE_RISK B \<equiv> to_float B (75 / 100)"

abbreviation MEANINGFUL_DIFF :: "py_builtins \<Rightarrow> pyfloat" where
  "MEANINGFUL_DIFF B \<equiv> to_float B (15 / 100)"

text \<open>
  Lines 54 and 55: the effective risk of one side, \<^verbatim>\<open>min(1.0, r + (speed/120.0)*0.10)\<close>,
  where \<open>speed_f\<close> is \<^verbatim>\<open>speed\<close> converted to a float by the division.
\<close>

definition speed_penalty :: "py_builtins \<Rightarrow> real \<Rightarrow> pyfloat" where
  "speed_penalty B speed_f = fl_mul B (to_float B (speed_f / 120)) (to_float B (10 / 100))"

definition eff_risk :: "py_builtins \<Rightarrow> pyfloat \<Rightarrow> real \<Rightarrow> pyfloat" where
  "eff_risk B r speed_f = py_min (Finite 1) (fl_add B r (speed_penalty B speed_f))"

text \<open>
  Lines 71 to 75, the two assignments to \<^verbatim>\<open>base\<close> under \<^verbatim>\<open>if child == 1\<close>, one
  definition each.
\<close>

definition veto_left :: "int \<Rightarrow> pyfloat \<Rightarrow> pyfloat \<Rightarrow> string \<Rightarrow> string" where
  "veto_left child left_eff right_eff base =
     (if child = 1 \<and> fl_lt right_eff left_eff \<and> base = ''swerve_left'' then ''brake''
      else base)"

definition veto_right :: "int \<Rightarrow> pyfloat \<Rightarrow> pyfloat \<Rightarrow> string \<Rightarrow> string" where
  "veto_right child left_eff right_eff base =
     (if child = 1 \<and> fl_lt left_eff right_eff \<and> base = ''swerve_right'' then ''brake''
      else base)"

text \<open>Lines 78 to 88, the body of \<^verbatim>\<open>if mode.startswith("util")\<close>.\<close>

definition refine_util :: "py_builtins \<Rightarrow> pyfloat \<Rightarrow> pyfloat \<Rightarrow> string \<Rightarrow> string" where
  "refine_util B left_eff right_eff base =
     (let max_eff = py_max left_eff right_eff;
          diff_eff = fl_abs (fl_sub B left_eff right_eff) in
      if fl_lt max_eff (to_float B (30 / 100)) \<and> fl_lt diff_eff (MEANINGFUL_DIFF B)
      then ''hold_lane''
      else if fl_lt left_eff (fl_sub B right_eff (MEANINGFUL_DIFF B)) then ''swerve_left''
      else if fl_lt right_eff (fl_sub B left_eff (MEANINGFUL_DIFF B)) then ''swerve_right''
      else if fl_le (HIGH_SIDE_RISK B) max_eff then ''brake''
      else base)"

text \<open>Lines 90 to 98, the body of \<^verbatim>\<open>if mode.startswith("deon")\<close>.\<close>

definition refine_deon ::
  "py_builtins \<Rightarrow> int \<Rightarrow> pyfloat \<Rightarrow> pyfloat \<Rightarrow> string \<Rightarrow> string" where
  "refine_deon B child left_eff right_eff base =
     (let max_eff = py_max left_eff right_eff;
          diff_eff = fl_abs (fl_sub B left_eff right_eff) in
      if fl_le (HIGH_SIDE_RISK B) max_eff then ''brake''
      else if child = 1 then ''brake''
      else if fl_le (MEANINGFUL_DIFF B) diff_eff \<and> fl_lt max_eff (HIGH_SIDE_RISK B)
      then ''hold_lane''
      else if base = ''brake'' then ''brake'' else ''hold_lane'')"

text \<open>Lines 100 to 105, the virtue branch that every other mode falls into.\<close>

definition refine_virtue :: "py_builtins \<Rightarrow> int \<Rightarrow> pyfloat \<Rightarrow> pyfloat \<Rightarrow> string" where
  "refine_virtue B child left_eff right_eff =
     (let max_eff = py_max left_eff right_eff;
          diff_eff = fl_abs (fl_sub B left_eff right_eff) in
      if child = 1 \<or> fl_le (to_float B (40 / 100)) max_eff then ''slow_down''
      else if fl_le (MEANINGFUL_DIFF B) diff_eff \<and> fl_lt max_eff (to_float B (50 / 100))
      then (if fl_lt left_eff right_eff then ''swerve_left'' else ''swerve_right'')
      else ''hold_lane'')"

text \<open>
  \<^verbatim>\<open>decide_action(mode, data)\<close>, lines 35 to 105, in the order of the source: lower-case
  the mode, take the base decision, read and coerce the four features, compute the
  effective risks (the division of line 54 converts the speed to a float), apply the
  universal rule, the child veto and the refinement of the mode.
\<close>

definition decide_action :: "py_builtins \<Rightarrow> string \<Rightarrow> pydict \<Rightarrow> error + string" where
  "decide_action B mode0 data =
     (let mode = lower mode0 in
      case u_base_decision mode data of
        Inl e \<Rightarrow> Inl e
      | Inr base \<Rightarrow>
      (case py_int B (dict_get data ''child_present'' (PInt 0)) of
        Inl e \<Rightarrow> Inl e
      | Inr child \<Rightarrow>
      (let left_r = u_riskify B (dict_get data ''left_risk'' (PFloat (Finite 0)));
           right_r = u_riskify B (dict_get data ''right_risk'' (PFloat (Finite 0))) in
       case py_int B (dict_get data ''speed_kph'' (PInt 0)) of
        Inl e \<Rightarrow> Inl e
      | Inr speed \<Rightarrow>
      (case int_to_float B speed of
        Inl e \<Rightarrow> Inl e
      | Inr speed_f \<Rightarrow>
      (let left_eff = eff_risk B left_r speed_f;
           right_eff = eff_risk B right_r speed_f;
           total_eff = fl_add B left_eff right_eff in
       if fl_le (VERY_HIGH_TOTAL B) total_eff \<or> HIGH_SPEED \<le> speed then Inr ''brake''
       else
         (let base' = veto_right child left_eff right_eff
                        (veto_left child left_eff right_eff base) in
          if prefix ''util'' mode then Inr (refine_util B left_eff right_eff base')
          else if prefix ''deon'' mode then
            Inr (refine_deon B child left_eff right_eff base')
          else Inr (refine_virtue B child left_eff right_eff)))))))"

section \<open>The specification's data model\<close>

text \<open>
  The enumerations of the specification (section 3) and its base policy table (section
  4.1), written from the specification's words, with the lower-case strings the program
  uses for them. They are compared with the program below.
\<close>

datatype EthicalMode = Utilitarian | Deontological | Virtue

datatype ScenarioKind = CarVsPedestrian | CarVsCar | PedestrianVsPedestrian | Unknown

datatype ActionLabel = Brake | HoldLane | SwerveLeft | SwerveRight | SlowDown

fun base_policy_table :: "EthicalMode \<Rightarrow> ScenarioKind \<Rightarrow> ActionLabel" where
  "base_policy_table Utilitarian CarVsPedestrian = SwerveLeft"
| "base_policy_table Deontological CarVsPedestrian = Brake"
| "base_policy_table Virtue CarVsPedestrian = SwerveLeft"
| "base_policy_table Utilitarian CarVsCar = SwerveLeft"
| "base_policy_table Deontological CarVsCar = Brake"
| "base_policy_table Virtue CarVsCar = SlowDown"
| "base_policy_table m PedestrianVsPedestrian = Brake"
| "base_policy_table m Unknown = HoldLane"

fun mode_string :: "EthicalMode \<Rightarrow> string" where
  "mode_string Utilitarian = ''utilitarian''"
| "mode_string Deontological = ''deontological''"
| "mode_string Virtue = ''virtue''"

fun label_string :: "ActionLabel \<Rightarrow> string" where
  "label_string Brake = ''brake''"
| "label_string HoldLane = ''hold_lane''"
| "label_string SwerveLeft = ''swerve_left''"
| "label_string SwerveRight = ''swerve_right''"
| "label_string SlowDown = ''slow_down''"

text \<open>The kind that a value of the \<^verbatim>\<open>name\<close> field stands for; every other value is unknown.\<close>

definition kind_of :: "pyval \<Rightarrow> ScenarioKind" where
  "kind_of v =
     (if v = PStr ''car_vs_pedestrian'' then CarVsPedestrian
      else if v = PStr ''car_vs_car'' then CarVsCar
      else if v = PStr ''pedestrian_vs_pedestrian'' then PedestrianVsPedestrian
      else Unknown)"

text \<open>The output vocabulary of section 6.\<close>

definition labels :: "string set" where
  "labels = {''brake'', ''hold_lane'', ''swerve_left'', ''swerve_right'', ''slow_down''}"

text \<open>
  A scenario record is a dict with the five documented fields at their documented types:
  \<^verbatim>\<open>name\<close> a string, \<^verbatim>\<open>child_present\<close> and \<^verbatim>\<open>speed_kph\<close> integers, the two risks
  floats. No field is confined to a range.
\<close>

definition scenario_record :: "pydict \<Rightarrow> bool" where
  "scenario_record data \<longleftrightarrow>
     (case data ''name'' of Some (PStr k) \<Rightarrow> True | _ \<Rightarrow> False) \<and>
     (case data ''child_present'' of Some (PInt c) \<Rightarrow> True | _ \<Rightarrow> False) \<and>
     (case data ''left_risk'' of Some (PFloat l) \<Rightarrow> True | _ \<Rightarrow> False) \<and>
     (case data ''right_risk'' of Some (PFloat r) \<Rightarrow> True | _ \<Rightarrow> False) \<and>
     (case data ''speed_kph'' of Some (PInt s) \<Rightarrow> True | _ \<Rightarrow> False)"

section \<open>Concrete inputs\<close>

text \<open>
  Builtins under which no string is a numeric literal and rounding changes nothing, so
  that arithmetic is exact; they are used only on values that doubles represent or that
  lie far from every threshold. The records are those of the specification's examples 1
  to 3 (\<open>example_record\<close>) and 4 (\<open>example_fast\<close>), a record with equal risks, and the first
  two with a speed of \<^verbatim>\<open>10**400\<close>.
\<close>

definition exact_builtins :: py_builtins where
  "exact_builtins =
     \<lparr>int_of_str = (\<lambda>s. None), float_of_str = (\<lambda>s. None), fl_round = (\<lambda>x. x)\<rparr>"

definition example_record :: pydict where
  "example_record =
     [''name'' \<mapsto> PStr ''car_vs_pedestrian'', ''child_present'' \<mapsto> PInt 0,
      ''left_risk'' \<mapsto> PFloat (Finite (3 / 10)), ''right_risk'' \<mapsto> PFloat (Finite (6 / 10)),
      ''speed_kph'' \<mapsto> PInt 30]"

definition example_fast :: pydict where
  "example_fast =
     [''name'' \<mapsto> PStr ''car_vs_car'', ''child_present'' \<mapsto> PInt 1,
      ''left_risk'' \<mapsto> PFloat (Finite (8 / 10)), ''right_risk'' \<mapsto> PFloat (Finite (2 / 10)),
      ''speed_kph'' \<mapsto> PInt 50]"

definition example_even :: pydict where
  "example_even =
     [''name'' \<mapsto> PStr ''car_vs_car'', ''child_present'' \<mapsto> PInt 0,
      ''left_risk'' \<mapsto> PFloat (Finite (5 / 10)), ''right_risk'' \<mapsto> PFloat (Finite (5 / 10)),
      ''speed_kph'' \<mapsto> PInt 0]"

definition example_huge :: pydict where
  "example_huge = example_record(''speed_kph'' \<mapsto> PInt (10 ^ 400))"

definition example_fast_huge :: pydict where
  "example_fast_huge = example_fast(''speed_kph'' \<mapsto> PInt (10 ^ 400))"

section \<open>Evaluation and the specification's examples\<close>

lemmas eval_defs = decide_action_def u_base_decision_def utilitarian_decision_def
  deontological_decision_def virtue_ethics_decision_def getitem_def dict_get_def
  u_norm_def strip_def isspace_def lower_def lower_char_def u_riskify_def int_to_float_def
  eff_risk_def speed_penalty_def veto_left_def veto_right_def refine_util_def refine_deon_def
  refine_virtue_def py_min_def py_max_def fl_sub_def fl_mul_def to_float_def
  exact_builtins_def

lemma spec_example_1:
  "decide_action exact_builtins ''utilitarian'' example_record = Inr ''swerve_left''"
  by (simp add: eval_defs example_record_def)

lemma spec_example_2:
  "decide_action exact_builtins ''deontological'' example_record = Inr ''hold_lane''"
  by (simp add: eval_defs example_record_def)

lemma spec_example_3:
  "decide_action exact_builtins ''virtue'' example_record = Inr ''slow_down''"
  by (simp add: eval_defs example_record_def)

lemma spec_example_4:
  "decide_action exact_builtins ''utilitarian'' example_fast = Inr ''brake''"
  by (simp add: eval_defs example_fast_def)

section \<open>Facts about the parts of \<open>decide_action\<close>\<close>

lemma norm_engine_outputs:
  "u_norm (Some ''swerve_left'') = ''swerve_left''"
  "u_norm (Some ''brake'') = ''brake''"
  "u_norm (Some ''straight'') = ''hold_lane''"
  "u_norm (Some ''slow down'') = ''slow_down''"
  by (simp_all add: u_norm_def strip_def isspace_def lower_def lower_char_def)

lemma engine_outputs:
  "utilitarian_decision data = Inr a \<Longrightarrow> a \<in> {''swerve_left'', ''brake'', ''straight''}"
  "deontological_decision data = Inr a \<Longrightarrow> a \<in> {''brake'', ''straight''}"
  "virtue_ethics_decision data = Inr a \<Longrightarrow>
     a \<in> {''swerve_left'', ''slow down'', ''brake'', ''straight''}"
  by (auto simp: utilitarian_decision_def deontological_decision_def
      virtue_ethics_decision_def split: sum.splits if_splits)

lemma base_decision_range:
  assumes "u_base_decision mode data = Inr b"
  shows "b \<in> {''swerve_left'', ''brake'', ''slow_down'', ''hold_lane''}"
  using assms engine_outputs[of data]
  by (auto simp: u_base_decision_def norm_engine_outputs split: if_splits sum.splits)

lemma base_decision_defined:
  assumes "data ''name'' = Some v"
  shows "\<exists>b. u_base_decision mode data = Inr b"
  using assms
  by (simp add: u_base_decision_def utilitarian_decision_def deontological_decision_def
      virtue_ethics_decision_def getitem_def)

lemma veto_range:
  "b \<in> {''swerve_left'', ''brake'', ''slow_down'', ''hold_lane''} \<Longrightarrow>
   veto_right c l r (veto_left c l r b)
     \<in> {''swerve_left'', ''brake'', ''slow_down'', ''hold_lane''}"
  by (auto simp: veto_left_def veto_right_def)

lemma refine_util_range:
  "b \<in> {''swerve_left'', ''brake'', ''slow_down'', ''hold_lane''} \<Longrightarrow>
   refine_util B l r b \<in> labels"
  by (auto simp: refine_util_def labels_def Let_def)

lemma refine_deon_range: "refine_deon B c l r b \<in> {''brake'', ''hold_lane''}"
  by (simp add: refine_deon_def Let_def)

lemma refine_virtue_range:
  "refine_virtue B c l r \<in> {''slow_down'', ''swerve_left'', ''swerve_right'', ''hold_lane''}"
  by (simp add: refine_virtue_def Let_def)

text \<open>
  Once the base decision, the two integer conversions and the conversion of the speed to
  a float have succeeded, \<open>decide_action\<close> is the chain of tests of lines 67 to 105.
\<close>

lemma decide_action_reached:
  assumes "u_base_decision (lower mode) data = Inr base"
    and "py_int B (dict_get data ''child_present'' (PInt 0)) = Inr child"
    and "py_int B (dict_get data ''speed_kph'' (PInt 0)) = Inr speed"
    and "int_to_float B speed = Inr sf"
    and "le = eff_risk B (u_riskify B (dict_get data ''left_risk'' (PFloat (Finite 0)))) sf"
    and "re = eff_risk B (u_riskify B (dict_get data ''right_risk'' (PFloat (Finite 0)))) sf"
    and "base' = veto_right child le re (veto_left child le re base)"
  shows "decide_action B mode data =
     (if fl_le (VERY_HIGH_TOTAL B) (fl_add B le re) \<or> HIGH_SPEED \<le> speed then Inr ''brake''
      else if prefix ''util'' (lower mode) then Inr (refine_util B le re base')
      else if prefix ''deon'' (lower mode) then Inr (refine_deon B child le re base')
      else Inr (refine_virtue B child le re))"
  using assms by (simp add: decide_action_def Let_def)

lemma decide_action_cases:
  "decide_action B mode data = Inr a \<Longrightarrow>
   \<exists>base child speed sf. u_base_decision (lower mode) data = Inr base \<and>
     py_int B (dict_get data ''child_present'' (PInt 0)) = Inr child \<and>
     py_int B (dict_get data ''speed_kph'' (PInt 0)) = Inr speed \<and>
     int_to_float B speed = Inr sf"
  by (auto simp: decide_action_def Let_def split: sum.splits)

lemma scenario_recordD:
  assumes "scenario_record data"
  obtains k c l r s where "data ''name'' = Some (PStr k)"
    "data ''child_present'' = Some (PInt c)"
    "data ''left_risk'' = Some (PFloat l)" "data ''right_risk'' = Some (PFloat r)"
    "data ''speed_kph'' = Some (PInt s)"
  using assms unfolding scenario_record_def
  by (auto split: option.splits pyval.splits)

lemma lower_char_idem: "lower_char (lower_char c) = lower_char c"
  by (auto simp: lower_char_def Let_def)

lemma lower_idem: "lower (lower s) = lower s"
  by (simp add: lower_def lower_char_idem)

lemma lower_virtue: "lower ''virtue'' = ''virtue''"
  by (simp add: lower_def lower_char_def)

text \<open>
  The float operations: rounding that is monotone, as rounding to the nearest double is,
  keeps the order of exact results, and \<^verbatim>\<open>min(1.0, x)\<close> is monotone and never NaN.
\<close>

lemma to_float_mono:
  assumes "mono (fl_round B)" and "x \<le> y"
  shows "fl_le (to_float B x) (to_float B y)"
proof -
  have "fl_round B x \<le> fl_round B y"
    using assms by (rule monoD)
  then show ?thesis
    by (simp add: to_float_def Let_def)
qed

lemma fl_le_antisym: "fl_le a b \<Longrightarrow> fl_le b a \<Longrightarrow> a = b"
  by (cases a; cases b) simp_all

lemma fl_le_NegInf: "fl_le NegInf b \<longleftrightarrow> b \<noteq> NaN"
  by (cases b) simp_all

lemma py_min_one_mono:
  "fl_le a b \<Longrightarrow> fl_le (py_min (Finite 1) a) (py_min (Finite 1) b)"
  by (cases a; cases b) (simp_all add: py_min_def)

lemma py_min_one_le: "fl_le (py_min (Finite 1) a) (Finite 1)"
  by (cases a) (simp_all add: py_min_def)

lemma py_min_one_not_nan: "py_min (Finite 1) a \<noteq> NaN"
  by (cases a) (simp_all add: py_min_def)

lemma py_min_one_clamped: "fl_le (Finite 1) a \<Longrightarrow> py_min (Finite 1) a = Finite 1"
  by (cases a) (simp_all add: py_min_def)

lemma py_min_one_top:
  "a = NaN \<or> a = PosInf \<Longrightarrow> py_min (Finite 1) a = Finite 1"
  by (cases a) (simp_all add: py_min_def)

lemma clamped_add_mono:
  assumes "mono (fl_round B)" and "fl_le l r"
  shows "fl_le (py_min (Finite 1) (fl_add B l p)) (py_min (Finite 1) (fl_add B r p))"
proof (cases p)
  case NaN
  then show ?thesis
    by (cases l; cases r) (simp_all add: py_min_def)
next
  case PosInf
  then show ?thesis
    using assms(2) by (cases l; cases r) (simp_all add: py_min_def)
next
  case NegInf
  then show ?thesis
    using assms(2) by (cases l; cases r) (simp_all add: py_min_def)
next
  case (Finite z)
  note p = this
  show ?thesis
  proof (cases l)
    case (Finite x)
    note l = this
    show ?thesis
    proof (cases r)
      case (Finite y)
      with l assms(2) have "x + z \<le> y + z" by simp
      then have "fl_le (to_float B (x + z)) (to_float B (y + z))"
        using assms(1) by (intro to_float_mono)
      then show ?thesis
        unfolding p l Finite fl_add.simps by (rule py_min_one_mono)
    next
      case PosInf
      then show ?thesis
        using p by (simp add: py_min_one_top py_min_one_le)
    next
      case NegInf
      with l assms(2) show ?thesis by simp
    next
      case NaN
      with l assms(2) show ?thesis by simp
    qed
  next
    case PosInf
    with assms(2) have "r = PosInf" by (cases r) simp_all
    with PosInf p show ?thesis by (simp add: py_min_def)
  next
    case NegInf
    then have "py_min (Finite 1) (fl_add B l p) = NegInf"
      using p by (simp add: py_min_def)
    then show ?thesis
      by (simp add: fl_le_NegInf py_min_one_not_nan)
  next
    case NaN
    with assms(2) show ?thesis by simp
  qed
qed

section \<open>The universal override\<close>

text \<open>
  What holds of the override and of totality: on a scenario record whose speed converts
  to a float, the universal rule returns \<open>brake\<close> under every mode, and \<open>decide_action\<close>
  raises nothing and returns one of the five labels, NaN and infinite risks included.
\<close>

lemma override_when_speed_converts:
  assumes "scenario_record data"
    and "data ''left_risk'' = Some (PFloat l)"
    and "data ''right_risk'' = Some (PFloat r)"
    and "data ''speed_kph'' = Some (PInt s)"
    and "int_to_float B s = Inr sf"
    and "fl_le (VERY_HIGH_TOTAL B)
           (fl_add B (eff_risk B (u_riskify B (PFloat l)) sf)
                     (eff_risk B (u_riskify B (PFloat r)) sf))
         \<or> HIGH_SPEED \<le> s"
  shows "decide_action B mode data = Inr ''brake''"
proof -
  from assms(1) obtain k c where f: "data ''name'' = Some (PStr k)"
    "data ''child_present'' = Some (PInt c)"
    by (auto elim!: scenario_recordD)
  obtain base where b: "u_base_decision (lower mode) data = Inr base"
    using base_decision_defined[of data "PStr k" "lower mode"] f(1) by blast
  have c: "py_int B (dict_get data ''child_present'' (PInt 0)) = Inr c"
    and s: "py_int B (dict_get data ''speed_kph'' (PInt 0)) = Inr s"
    using f assms(4) by (simp_all add: dict_get_def)
  show ?thesis
    unfolding decide_action_reached[OF b c s assms(5) refl refl refl]
    using assms(2,3,6) by (simp add: dict_get_def)
qed

lemma total_when_speed_converts:
  assumes "scenario_record data"
    and "data ''speed_kph'' = Some (PInt s)"
    and "int_to_float B s = Inr sf"
  shows "\<exists>a. decide_action B mode data = Inr a \<and> a \<in> labels"
proof -
  from assms(1) obtain k c where f: "data ''name'' = Some (PStr k)"
    "data ''child_present'' = Some (PInt c)"
    by (auto elim!: scenario_recordD)
  obtain base where b: "u_base_decision (lower mode) data = Inr base"
    using base_decision_defined[of data "PStr k" "lower mode"] f(1) by blast
  have c: "py_int B (dict_get data ''child_present'' (PInt 0)) = Inr c"
    and s: "py_int B (dict_get data ''speed_kph'' (PInt 0)) = Inr s"
    using f assms(2) by (simp_all add: dict_get_def)
  define le where
    "le = eff_risk B (u_riskify B (dict_get data ''left_risk'' (PFloat (Finite 0)))) sf"
  define re where
    "re = eff_risk B (u_riskify B (dict_get data ''right_risk'' (PFloat (Finite 0)))) sf"
  define b' where "b' = veto_right c le re (veto_left c le re base)"
  have "b' \<in> {''swerve_left'', ''brake'', ''slow_down'', ''hold_lane''}"
    unfolding b'_def using b by (intro veto_range base_decision_range)
  then have 1: "refine_util B le re b' \<in> labels"
    by (rule refine_util_range)
  have 2: "refine_deon B c le re b' \<in> labels"
    using refine_deon_range[of B c le re b'] by (auto simp: labels_def)
  have 3: "refine_virtue B c le re \<in> labels"
    using refine_virtue_range[of B c le re] by (auto simp: labels_def)
  have 4: "''brake'' \<in> labels"
    by (simp add: labels_def)
  show ?thesis
    unfolding decide_action_reached[OF b c s assms(3) le_def re_def b'_def]
    using 1 2 3 4 by simp
qed

text \<open>
  C1. The override is not reached on every scenario record: the division
  \<^verbatim>\<open>speed/120.0\<close> of line 54 comes before the speed test of line 67 and raises
  \<^verbatim>\<open>OverflowError\<close> on an integer too large for a float. On the record of the
  specification's fourth example with the speed \<^verbatim>\<open>10**400\<close>, which is at least 45,
  \<open>decide_action\<close> raises instead of returning \<open>brake\<close>.
\<close>

theorem override_raises_on_huge_speed:
  "scenario_record example_fast_huge \<and>
   example_fast_huge ''speed_kph'' = Some (PInt (10 ^ 400)) \<and> HIGH_SPEED \<le> 10 ^ 400 \<and>
   decide_action exact_builtins ''utilitarian'' example_fast_huge = Inl OverflowError"
  by (simp add: eval_defs scenario_record_def example_fast_def example_fast_huge_def)

section \<open>The deontological branch\<close>

text \<open>
  C2. Under a mode whose lower-case form starts with \<open>deon\<close>, \<open>decide_action\<close> never
  returns \<open>swerve_left\<close> or \<open>swerve_right\<close>, on any dict at all.
\<close>

theorem deon_never_swerves:
  assumes "prefix ''deon'' (lower mode)"
  shows "decide_action B mode data \<noteq> Inr ''swerve_left'' \<and>
         decide_action B mode data \<noteq> Inr ''swerve_right''"
proof -
  have nu: "\<not> prefix ''util'' (lower mode)"
    using assms by (auto simp: prefix_def)
  have "a = ''brake'' \<or> a = ''hold_lane''" if a: "decide_action B mode data = Inr a" for a
  proof -
    from a obtain base child speed sf where r:
      "u_base_decision (lower mode) data = Inr base"
      "py_int B (dict_get data ''child_present'' (PInt 0)) = Inr child"
      "py_int B (dict_get data ''speed_kph'' (PInt 0)) = Inr speed"
      "int_to_float B speed = Inr sf"
      using decide_action_cases by blast
    define le where
      "le = eff_risk B (u_riskify B (dict_get data ''left_risk'' (PFloat (Finite 0)))) sf"
    define re where
      "re = eff_risk B (u_riskify B (dict_get data ''right_risk'' (PFloat (Finite 0)))) sf"
    define b' where "b' = veto_right child le re (veto_left child le re base)"
    have d: "refine_deon B child le re b' = ''brake'' \<or>
             refine_deon B child le re b' = ''hold_lane''"
      using refine_deon_range[of B child le re b'] by simp
    have eq: "decide_action B mode data =
        (if fl_le (VERY_HIGH_TOTAL B) (fl_add B le re) \<or> HIGH_SPEED \<le> speed
         then Inr ''brake'' else Inr (refine_deon B child le re b'))"
      unfolding decide_action_reached[OF r le_def re_def b'_def]
      using assms nu by simp
    show ?thesis
    proof (cases "fl_le (VERY_HIGH_TOTAL B) (fl_add B le re) \<or> HIGH_SPEED \<le> speed")
      case True
      with eq a show ?thesis by simp
    next
      case False
      with eq a have "a = refine_deon B child le re b'" by simp
      with d show ?thesis by simp
    qed
  qed
  then show ?thesis by fastforce
qed

theorem deon_never_swerves_witness:
  "prefix ''deon'' (lower ''DEON'') \<and>
   decide_action exact_builtins ''DEON'' example_record \<noteq> Inr ''swerve_left'' \<and>
   decide_action exact_builtins ''DEON'' example_record \<noteq> Inr ''swerve_right''"
proof -
  have h: "prefix ''deon'' (lower ''DEON'')"
    by code_simp
  from deon_never_swerves[OF h, of exact_builtins example_record] h
  show ?thesis by simp
qed

section \<open>Coercion of the risks\<close>




section \<open>The mode selector\<close>

text \<open>
  What holds of the selector: the case of the mode does not matter, and a mode whose
  lower-case form starts with neither \<open>util\<close> nor \<open>deon\<close> behaves as \<open>virtue\<close>.
\<close>

lemma mode_case_insensitive: "decide_action B mode data = decide_action B (lower mode) data"
  by (simp add: decide_action_def lower_idem)

lemma other_mode_is_virtue:
  assumes "\<not> prefix ''util'' (lower mode)" and "\<not> prefix ''deon'' (lower mode)"
  shows "decide_action B mode data = decide_action B ''virtue'' data"
proof -
  have "lower mode \<noteq> ''utilitarian''" "lower mode \<noteq> ''deontological''"
    using assms by auto
  then have "u_base_decision (lower mode) data = u_base_decision ''virtue'' data"
    by (simp add: u_base_decision_def)
  then show ?thesis
    using assms by (simp add: decide_action_def lower_virtue Let_def split: sum.splits)
qed

text \<open>
  C4. A proper prefix does not behave as the full name: \<open>u_base_decision\<close> compares the
  mode with \<open>utilitarian\<close> and \<open>deontological\<close> for equality, so \<open>util\<close> and \<open>deon\<close> take
  their base action from the virtue rules and only then the refinement of their own
  branch. On a \<open>car_vs_car\<close> record with both risks 0.5, no child and speed 0 the mode
  \<open>util\<close> gives \<open>slow_down\<close> where \<open>utilitarian\<close> gives \<open>swerve_left\<close>, and on the same record
  with kind \<open>car_vs_pedestrian\<close> the mode \<open>deon\<close> gives \<open>hold_lane\<close> where \<open>deontological\<close>
  gives \<open>brake\<close>.
\<close>

theorem mode_prefix_divergence:
  "decide_action exact_builtins ''util'' example_even = Inr ''slow_down'' \<and>
   decide_action exact_builtins ''utilitarian'' example_even = Inr ''swerve_left'' \<and>
   decide_action exact_builtins ''deon''
     (example_even(''name'' \<mapsto> PStr ''car_vs_pedestrian'')) = Inr ''hold_lane'' \<and>
   decide_action exact_builtins ''deontological''
     (example_even(''name'' \<mapsto> PStr ''car_vs_pedestrian'')) = Inr ''brake''"
  by (simp add: eval_defs example_even_def)

section \<open>Normalisation of action labels\<close>

text \<open>
  C5, as the program has it. \<open>u_norm\<close> is total; absent input gives \<open>brake\<close>; each of the
  five labels is kept, \<open>straight\<close> becomes \<open>hold_lane\<close> and \<open>slow down\<close> becomes
  \<open>slow_down\<close>; every other string comes back stripped and in lower case, and not as
  \<open>brake\<close>.
\<close>

theorem norm_passes_through:
  "u_norm None = ''brake'' \<and>
   (\<forall>l \<in> labels. u_norm (Some l) = l) \<and>
   u_norm (Some ''straight'') = ''hold_lane'' \<and>
   u_norm (Some ''slow down'') = ''slow_down'' \<and>
   (lower (strip a) \<notin> {''straight'', ''slow down''} \<longrightarrow> u_norm (Some a) = lower (strip a))"
  by (simp add: u_norm_def labels_def strip_def isspace_def lower_def lower_char_def)

theorem norm_passes_through_witness:
  "''brake'' \<in> labels \<and> u_norm (Some ''brake'') = ''brake'' \<and>
   lower (strip ''foo'') \<notin> {''straight'', ''slow down''} \<and> u_norm (Some ''foo'') = ''foo''"
proof -
  have h: "lower (strip ''foo'') = ''foo''"
    by (simp add: strip_def isspace_def lower_def lower_char_def)
  from norm_passes_through[of "''foo''"] h show ?thesis
    by (simp add: labels_def)
qed

text \<open>C5 as it is written fails: the unrecognised string \<open>foo\<close> is not mapped to \<open>brake\<close>.\<close>

theorem norm_counterexample:
  "''foo'' \<notin> {''brake'', ''hold_lane'', ''swerve_left'', ''swerve_right'', ''slow_down'',
               ''straight'', ''slow down''} \<and> u_norm (Some ''foo'') \<noteq> ''brake''"
  by (simp add: u_norm_def strip_def isspace_def lower_def lower_char_def)

section \<open>The base policy table\<close>

text \<open>
  C6. For each of the three modes and every value of the \<^verbatim>\<open>name\<close> field, the normalised
  base decision is the entry of the specification's table; every value that is not one of
  the three known kinds is \<open>Unknown\<close> and gives \<open>hold_lane\<close>.
\<close>

theorem base_table_reproduced:
  assumes "data ''name'' = Some v"
  shows "u_base_decision (mode_string m) data =
           Inr (label_string (base_policy_table m (kind_of v)))"
  using assms
  by (cases m)
     (simp_all add: u_base_decision_def utilitarian_decision_def deontological_decision_def
        virtue_ethics_decision_def getitem_def kind_of_def norm_engine_outputs)

theorem base_table_reproduced_witness:
  "example_record ''name'' = Some (PStr ''car_vs_pedestrian'') \<and>
   u_base_decision ''utilitarian'' example_record = Inr ''swerve_left''"
  using base_table_reproduced[of example_record "PStr ''car_vs_pedestrian''" Utilitarian]
  by (simp add: example_record_def kind_of_def)

section \<open>Totality\<close>

text \<open>
  C7. \<open>decide_action\<close> is not total on the scenario records: on the record of the
  specification's first example with the speed \<^verbatim>\<open>10**400\<close>, a dict with the five
  documented fields, the conversion of line 54 raises \<^verbatim>\<open>OverflowError\<close>, where
  \<open>u_riskify\<close> catches the same error for a risk.
\<close>

theorem totality_fails_on_huge_speed:
  "scenario_record example_huge \<and>
   decide_action exact_builtins ''virtue'' example_huge = Inl OverflowError"
  by (simp add: eval_defs scenario_record_def example_record_def example_huge_def)

section \<open>The speed penalty and the order of the two sides\<close>

text \<open>
  C8, as the program has it. Under a rounding that is monotone the penalty never reverses
  the order of the two sides: a risk that is not larger gives an effective risk that is
  not larger, and equal risks give equal effective risks. The order need not stay strict:
  when the clamp at 1.0 applies to both sides, both effective risks are 1.0.
\<close>

theorem eff_risk_order:
  assumes "mono (fl_round B)"
  shows "(fl_le l r \<longrightarrow> fl_le (eff_risk B l s) (eff_risk B r s)) \<and>
         (fl_le l r \<and> fl_le r l \<longrightarrow> eff_risk B l s = eff_risk B r s) \<and>
         (fl_le (Finite 1) (fl_add B l (speed_penalty B s)) \<and>
          fl_le (Finite 1) (fl_add B r (speed_penalty B s)) \<longrightarrow>
            eff_risk B l s = Finite 1 \<and> eff_risk B r s = Finite 1)"
proof (intro conjI impI)
  assume "fl_le l r"
  with assms show "fl_le (eff_risk B l s) (eff_risk B r s)"
    unfolding eff_risk_def by (rule clamped_add_mono)
next
  assume "fl_le l r \<and> fl_le r l"
  then have "l = r" by (blast intro: fl_le_antisym)
  then show "eff_risk B l s = eff_risk B r s" by simp
next
  assume a: "fl_le (Finite 1) (fl_add B l (speed_penalty B s)) \<and>
          fl_le (Finite 1) (fl_add B r (speed_penalty B s))"
  from a show "eff_risk B l s = Finite 1" by (simp add: eff_risk_def py_min_one_clamped)
  from a show "eff_risk B r s = Finite 1" by (simp add: eff_risk_def py_min_one_clamped)
qed

theorem eff_risk_order_witness:
  "mono (fl_round exact_builtins) \<and>
   fl_le (Finite (3 / 10)) (Finite (6 / 10)) \<and>
   fl_le (eff_risk exact_builtins (Finite (3 / 10)) 30) (eff_risk exact_builtins (Finite (6 / 10)) 30) \<and>
   fl_le (Finite (1 / 2)) (Finite (1 / 2)) \<and>
   eff_risk exact_builtins (Finite (1 / 2)) 30 = eff_risk exact_builtins (Finite (1 / 2)) 30 \<and>
   fl_le (Finite 1) (fl_add exact_builtins (Finite (99 / 100)) (speed_penalty exact_builtins 24)) \<and>
   fl_le (Finite 1) (fl_add exact_builtins (Finite 1) (speed_penalty exact_builtins 24)) \<and>
   eff_risk exact_builtins (Finite (99 / 100)) 24 = Finite 1 \<and>
   eff_risk exact_builtins (Finite 1) 24 = Finite 1"
proof -
  have m: "mono (fl_round exact_builtins)"
    by (simp add: exact_builtins_def mono_def)
  have c: "fl_le (Finite 1) (fl_add exact_builtins (Finite (99 / 100)) (speed_penalty exact_builtins 24))"
    "fl_le (Finite 1) (fl_add exact_builtins (Finite 1) (speed_penalty exact_builtins 24))"
    by (simp_all add: speed_penalty_def fl_mul_def to_float_def exact_builtins_def)
  from eff_risk_order[OF m, of "Finite (3 / 10)" "Finite (6 / 10)" 30]
    eff_risk_order[OF m, of "Finite (1 / 2)" "Finite (1 / 2)" 30]
    eff_risk_order[OF m, of "Finite (99 / 100)" "Finite 1" 24] m c
  show ?thesis by simp
qed

text \<open>
  C8 as it is written fails where the clamp applies: at speed 24 the coerced risks 0.99
  and 1.0 both have the effective risk 1.0.
\<close>

theorem eff_risk_order_counterexample:
  "fl_lt (u_riskify exact_builtins (PFloat (Finite (99 / 100))))
         (u_riskify exact_builtins (PFloat (Finite 1))) \<and>
   \<not> fl_lt (eff_risk exact_builtins (u_riskify exact_builtins (PFloat (Finite (99 / 100)))) 24)
            (eff_risk exact_builtins (u_riskify exact_builtins (PFloat (Finite 1))) 24)"
  by (simp add: u_riskify_def eff_risk_def speed_penalty_def fl_mul_def py_min_def py_max_def
      to_float_def exact_builtins_def)

section \<open>The virtue branch and the scenario kind\<close>

text \<open>
  C9. Under a mode of the virtue branch, two dicts that both have a name and agree on
  \<^verbatim>\<open>child_present\<close>, \<^verbatim>\<open>left_risk\<close>, \<^verbatim>\<open>right_risk\<close> and \<^verbatim>\<open>speed_kph\<close> give the same result,
  an exception included.
\<close>

theorem virtue_ignores_kind:
  assumes "\<not> prefix ''util'' (lower mode)" and "\<not> prefix ''deon'' (lower mode)"
    and "d1 ''name'' = Some k1" and "d2 ''name'' = Some k2"
    and "d1 ''child_present'' = d2 ''child_present''"
    and "d1 ''left_risk'' = d2 ''left_risk''"
    and "d1 ''right_risk'' = d2 ''right_risk''"
    and "d1 ''speed_kph'' = d2 ''speed_kph''"
  shows "decide_action B mode d1 = decide_action B mode d2"
proof -
  obtain b1 b2 where b: "u_base_decision (lower mode) d1 = Inr b1"
    "u_base_decision (lower mode) d2 = Inr b2"
    using base_decision_defined[of d1 k1 "lower mode"]
      base_decision_defined[of d2 k2 "lower mode"] assms(3,4) by blast
  have g: "dict_get d1 ''child_present'' x = dict_get d2 ''child_present'' x"
    "dict_get d1 ''left_risk'' x = dict_get d2 ''left_risk'' x"
    "dict_get d1 ''right_risk'' x = dict_get d2 ''right_risk'' x"
    "dict_get d1 ''speed_kph'' x = dict_get d2 ''speed_kph'' x" for x
    using assms(5-8) by (simp_all add: dict_get_def)
  show ?thesis
    using assms(1,2) by (simp add: decide_action_def Let_def b g split: sum.splits)
qed

theorem virtue_ignores_kind_witness:
  "\<not> prefix ''util'' (lower ''virtue'') \<and> \<not> prefix ''deon'' (lower ''virtue'') \<and>
   decide_action exact_builtins ''virtue'' example_record =
   decide_action exact_builtins ''virtue''
     (example_record(''name'' \<mapsto> PStr ''car_vs_car''))"
proof -
  have h: "\<not> prefix ''util'' (lower ''virtue'')" "\<not> prefix ''deon'' (lower ''virtue'')"
    by (simp_all add: lower_def lower_char_def)
  from virtue_ignores_kind[OF h, of example_record "PStr ''car_vs_pedestrian''"
      "example_record(''name'' \<mapsto> PStr ''car_vs_car'')" "PStr ''car_vs_car''"
      exact_builtins] h
  show ?thesis by (simp add: example_record_def)
qed

section \<open>The veto on a swerve to the right\<close>

text \<open>
  C10. Whatever the mode string and the dict, the normalised base decision is one of
  \<open>swerve_left\<close>, \<open>brake\<close>, \<open>slow_down\<close> and \<open>hold_lane\<close>, never \<open>swerve_right\<close>; so the
  assignment of line 75 never changes the base action that line 73 leaves.
\<close>

theorem right_veto_unreachable:
  assumes "u_base_decision mode data = Inr base"
  shows "base \<noteq> ''swerve_right'' \<and>
         base \<in> {''swerve_left'', ''brake'', ''slow_down'', ''hold_lane''} \<and>
         veto_right child le re (veto_left child le re base) = veto_left child le re base"
proof -
  have r: "base \<in> {''swerve_left'', ''brake'', ''slow_down'', ''hold_lane''}"
    using assms by (rule base_decision_range)
  then show ?thesis
    by (auto simp: veto_left_def veto_right_def)
qed

theorem right_veto_unreachable_witness:
  "u_base_decision ''utilitarian'' example_record = Inr ''swerve_left'' \<and>
   veto_right 1 (Finite (6 / 10)) (Finite (3 / 10))
      (veto_left 1 (Finite (6 / 10)) (Finite (3 / 10)) ''swerve_left'')
     = veto_left 1 (Finite (6 / 10)) (Finite (3 / 10)) ''swerve_left''"
proof -
  have h: "u_base_decision ''utilitarian'' example_record = Inr ''swerve_left''"
    by (simp add: u_base_decision_def utilitarian_decision_def getitem_def example_record_def
        norm_engine_outputs)
  from right_veto_unreachable[OF h, of 1 "Finite (6 / 10)" "Finite (3 / 10)"] h
  show ?thesis by simp
qed

end
